theory Spec2Isabelle
  imports Main
begin

section \<open>The assembler of toHex.py\<close>

text \<open>
  The program translates a line-oriented assembly text into 8-bit machine words in
  three steps: \<open>parse_assembly\<close> (lines to instruction records and a label table),
  \<open>translate_to_machine_code\<close> (records to binary words) and
  \<open>convert_binary_to_hex\<close> (binary words to two hexadecimal digits).

  Python strings are modelled as \<open>string\<close>, a list of 8-bit characters, so the model
  covers source texts in the 8-bit range; the program's own text and tables are ASCII.
  Every exception the source can raise is a value of \<open>error\<close>; a function that can
  raise returns \<open>error + 'a\<close> with \<open>Inl\<close> for the exception.
\<close>

subsection \<open>Exceptions\<close>

text \<open>
  The source raises \<open>ValueError\<close> with seven different messages, one constructor each
  (in the order of the source: unknown mnemonic, unknown register, unknown port, immediate
  not 2-bit binary, undefined label, unhandled format, binary string not 8 bits long).
  \<open>InvalidLiteral\<close> is the \<open>ValueError\<close> of the built-in \<open>int(s, 2)\<close>, and
  \<open>IndexError\<close> is what indexing a list out of range raises.
\<close>

datatype error =
    UnknownMnemonic
  | UnresolvedRegister
  | UnresolvedPort
  | MalformedImmediate
  | UndefinedLabel
  | UnsupportedFormat
  | MalformedWord
  | InvalidLiteral
  | IndexError

subsection \<open>The string operations of Python the source uses\<close>

text \<open>
  \<open>str.isspace\<close> on one character of the 8-bit range: tab, line feed, vertical tab,
  form feed, carriage return, the four separators 0x1C to 0x1F, space, next line (0x85)
  and no-break space (0xA0). \<open>strip()\<close> and \<open>split()\<close> without separator use this
  set.
\<close>

definition isspace :: "char \<Rightarrow> bool" where
  "isspace c \<longleftrightarrow>
     c \<in> {CHR 0x09, CHR 0x0A, CHR 0x0B, CHR 0x0C, CHR 0x0D, CHR 0x1C, CHR 0x1D, CHR 0x1E,
          CHR 0x1F, CHR 0x20, CHR 0x85, CHR 0xA0}"

text \<open>\<open>s.strip()\<close>: the whitespace at both ends is removed.\<close>

definition strip :: "string \<Rightarrow> string" where
  "strip s = rev (dropWhile isspace (rev (dropWhile isspace s)))"

text \<open>\<open>s.startswith(p)\<close>.\<close>

definition startswith :: "string \<Rightarrow> string \<Rightarrow> bool" where
  "startswith s p \<longleftrightarrow> take (length p) s = p"

text \<open>
  \<open>s.split(sep)\<close> for a separator of one character: the pieces between the
  separators, at least one piece (the empty string gives one empty piece).
\<close>

fun split_on :: "char \<Rightarrow> string \<Rightarrow> string list" where
  "split_on sep [] = [[]]"
| "split_on sep (c # cs) =
     (if c = sep then [] # split_on sep cs
      else (case split_on sep cs of
              [] \<Rightarrow> [[c]]
            | p # ps \<Rightarrow> (c # p) # ps))"

text \<open>
  \<open>s.split(sep, 1)\<close>: at most one split, at the first separator; the second piece
  keeps every later separator.
\<close>

definition split_on_max1 :: "char \<Rightarrow> string \<Rightarrow> string list" where
  "split_on_max1 sep s =
     (if sep \<in> set s
      then [takeWhile (\<lambda>c. c \<noteq> sep) s, tl (dropWhile (\<lambda>c. c \<noteq> sep) s)]
      else [s])"

text \<open>
  \<open>s.split(maxsplit=1)\<close>: split at whitespace. Leading whitespace is skipped; a string
  of whitespace only gives no piece; the first piece is the first run of other
  characters; the second piece, when something other than whitespace follows, is the rest
  of the string from there, its trailing whitespace kept.
\<close>

definition split_whitespace_max1 :: "string \<Rightarrow> string list" where
  "split_whitespace_max1 s =
     (let s1 = dropWhile isspace s in
      if s1 = [] then []
      else
        let w = takeWhile (\<lambda>c. \<not> isspace c) s1;
            r = dropWhile isspace (dropWhile (\<lambda>c. \<not> isspace c) s1)
        in if r = [] then [w] else [w, r])"

text \<open>
  \<open>s.upper()\<close>: the letters a to z become A to Z, which is all Python does on ASCII
  text. A character outside ASCII is left as it is, where Python changes the lower-case
  letters of that range (some of them to code points beyond 8 bits); a word with such a
  character is no key of the instruction set before or after, so the encoder rejects it
  as an unknown mnemonic either way.
\<close>

definition upper_char :: "char \<Rightarrow> char" where
  "upper_char c =
     (let n = (of_char c :: nat) in
      if 97 \<le> n \<and> n \<le> 122 then char_of (n - 32) else c)"

definition upper :: "string \<Rightarrow> string" where
  "upper s = map upper_char s"

text \<open>\<open>s.replace(c, "")\<close> for a string \<open>c\<close> of one character: every occurrence is removed.\<close>

definition remove_all :: "char \<Rightarrow> string \<Rightarrow> string" where
  "remove_all c s = filter (\<lambda>x. x \<noteq> c) s"

text \<open>
  Indexing a list, \<open>xs[i]\<close> with \<open>i\<close> not negative: \<open>IndexError\<close> out of range.
\<close>

definition index :: "'a list \<Rightarrow> nat \<Rightarrow> error + 'a" where
  "index xs i = (if i < length xs then Inr (xs ! i) else Inl IndexError)"

subsection \<open>Number formatting\<close>

text \<open>
  \<open>format(n, '04b')\<close> for \<open>n\<close> not negative: the binary digits of \<open>n\<close>, padded with
  zeros on the left to at least four characters. The width is a minimum: a number of
  16 or more gives more than four digits.
\<close>

definition digit_char :: "nat \<Rightarrow> char" where
  "digit_char d = ''0123456789ABCDEF'' ! d"

fun digits :: "nat \<Rightarrow> nat \<Rightarrow> string" where
  "digits b n =
     (if b < 2 \<or> n < b then [digit_char n]
      else digits b (n div b) @ [digit_char (n mod b)])"

definition zfill :: "nat \<Rightarrow> string \<Rightarrow> string" where
  "zfill w s = replicate (w - length s) (CHR ''0'') @ s"

definition format_04b :: "nat \<Rightarrow> string" where
  "format_04b n = zfill 4 (digits 2 n)"

subsection \<open>The static tables\<close>

record opcode_info =
  opcode :: string
  format :: string

definition INSTRUCTION_SET :: "string \<rightharpoonup> opcode_info" where
  "INSTRUCTION_SET = map_of
     [(''NOP'', \<lparr>opcode = ''0000'', format = ''''\<rparr>),
      (''HLT'', \<lparr>opcode = ''0001'', format = ''''\<rparr>),
      (''IN'',  \<lparr>opcode = ''0010'', format = ''reg_port''\<rparr>),
      (''OUT'', \<lparr>opcode = ''0011'', format = ''reg_port''\<rparr>),
      (''MOV'', \<lparr>opcode = ''0100'', format = ''reg_reg''\<rparr>),
      (''LDI'', \<lparr>opcode = ''0101'', format = ''reg_imm2''\<rparr>),
      (''ADD'', \<lparr>opcode = ''0110'', format = ''reg_reg''\<rparr>),
      (''SUB'', \<lparr>opcode = ''0111'', format = ''reg_reg''\<rparr>),
      (''DEC'', \<lparr>opcode = ''1000'', format = ''reg''\<rparr>),
      (''JMP'', \<lparr>opcode = ''1001'', format = ''address''\<rparr>),
      (''JZ'',  \<lparr>opcode = ''1010'', format = ''address''\<rparr>)]"

definition REGISTERS :: "string \<rightharpoonup> string" where
  "REGISTERS = map_of
     [(''R0'', ''00''), (''R1'', ''01''), (''R2'', ''10''), (''R3'', ''11'')]"

definition PORTS :: "string \<rightharpoonup> string" where
  "PORTS = map_of
     [(''LIGHT_PORT'', ''00''), (''MOTION_PORT'', ''01''),
      (''DUMMY_PORT_A'', ''10''), (''DUMMY_PORT_B'', ''11'')]"

subsection \<open>The encoder: \<open>translate_to_machine_code\<close>\<close>

record instruction_data =
  address :: nat
  mnemonic :: string
  operands :: string

type_synonym label_table = "string \<rightharpoonup> string"

text \<open>\<open>re.fullmatch(r'[01]{2}', s)\<close>: exactly two characters, each 0 or 1.\<close>

definition fullmatch_01_2 :: "string \<Rightarrow> bool" where
  "fullmatch_01_2 s \<longleftrightarrow> length s = 2 \<and> (\<forall>c \<in> set s. c = CHR ''0'' \<or> c = CHR ''1'')"

text \<open>
  The \<open>if\<close>/\<open>elif\<close> chain on the format tag, which computes \<open>operand_binary\<close>. In
  the three formats with two operands the source reads \<open>parts[0]\<close> and \<open>parts[1]\<close>
  before it looks a name up, so an operand string without comma raises \<open>IndexError\<close>
  there.
\<close>

definition operand_binary :: "string \<Rightarrow> string \<Rightarrow> label_table \<Rightarrow> error + string" where
  "operand_binary fmt ops labels =
     (if fmt = [] then Inr ''0000''
      else if fmt = ''reg_port'' then
        (let parts = split_on (CHR '','') ops in
         case index parts 0 of Inl e \<Rightarrow> Inl e | Inr p0 \<Rightarrow>
        (case index parts 1 of Inl e \<Rightarrow> Inl e | Inr p1 \<Rightarrow>
           (let reg = strip p0; port = strip p1 in
            case REGISTERS reg of None \<Rightarrow> Inl UnresolvedRegister | Some rb \<Rightarrow>
           (case PORTS port of None \<Rightarrow> Inl UnresolvedPort | Some pb \<Rightarrow>
              Inr (rb @ pb)))))
      else if fmt = ''reg_reg'' then
        (let parts = split_on (CHR '','') ops in
         case index parts 0 of Inl e \<Rightarrow> Inl e | Inr p0 \<Rightarrow>
        (case index parts 1 of Inl e \<Rightarrow> Inl e | Inr p1 \<Rightarrow>
           (let dest_reg = strip p0; src_reg = strip p1 in
            case REGISTERS dest_reg of None \<Rightarrow> Inl UnresolvedRegister | Some db \<Rightarrow>
           (case REGISTERS src_reg of None \<Rightarrow> Inl UnresolvedRegister | Some sb \<Rightarrow>
              Inr (db @ sb)))))
      else if fmt = ''reg_imm2'' then
        (let parts = split_on (CHR '','') ops in
         case index parts 0 of Inl e \<Rightarrow> Inl e | Inr p0 \<Rightarrow>
        (case index parts 1 of Inl e \<Rightarrow> Inl e | Inr p1 \<Rightarrow>
           (let reg = strip p0; imm = strip p1 in
            case REGISTERS reg of None \<Rightarrow> Inl UnresolvedRegister | Some rb \<Rightarrow>
              (let imm_val = remove_all (CHR ''b'') imm in
               if \<not> fullmatch_01_2 imm_val then Inl MalformedImmediate
               else Inr (rb @ imm_val)))))
      else if fmt = ''reg'' then
        (let reg = strip ops in
         case REGISTERS reg of None \<Rightarrow> Inl UnresolvedRegister | Some rb \<Rightarrow>
           Inr (rb @ ''00''))
      else if fmt = ''address'' then
        (let target_label = strip ops in
         case labels target_label of None \<Rightarrow> Inl UndefinedLabel | Some a \<Rightarrow> Inr a)
      else Inl UnsupportedFormat)"

text \<open>The body of the loop: one record to one word, opcode first.\<close>

definition encode_instruction :: "instruction_data \<Rightarrow> label_table \<Rightarrow> error + string" where
  "encode_instruction r labels =
     (case INSTRUCTION_SET (mnemonic r) of
        None \<Rightarrow> Inl UnknownMnemonic
      | Some info \<Rightarrow>
          (case operand_binary (format info) (operands r) labels of
             Inl e \<Rightarrow> Inl e
           | Inr ob \<Rightarrow> Inr (opcode info @ ob)))"

text \<open>The loop: the words in program order; the first exception ends the translation.\<close>

fun translate_to_machine_code :: "instruction_data list \<Rightarrow> label_table \<Rightarrow> error + string list"
  where
  "translate_to_machine_code [] labels = Inr []"
| "translate_to_machine_code (r # rs) labels =
     (case encode_instruction r labels of
        Inl e \<Rightarrow> Inl e
      | Inr w \<Rightarrow>
          (case translate_to_machine_code rs labels of
             Inl e \<Rightarrow> Inl e
           | Inr ws \<Rightarrow> Inr (w # ws)))"

subsection \<open>The line parser: \<open>parse_assembly\<close>\<close>

text \<open>
  The three variables of the loop: the records appended so far, the label dictionary and
  the address counter. A Python \<open>dict\<close> assignment \<open>labels[label] = v\<close> replaces the
  value of a key that is already there, as the map update does.
\<close>

record parser_state =
  parsed_lines :: "instruction_data list"
  labels :: label_table
  current_address :: nat

text \<open>
  The block \<open>if ':' in line\<close>: the text before the first colon, stripped, becomes a
  key of the table with the formatted counter as value, and the text after the first
  colon, stripped, is what is left of the line.
\<close>

definition take_label :: "string \<Rightarrow> parser_state \<Rightarrow> error + (string \<times> parser_state)" where
  "take_label line st =
     (if CHR '':'' \<in> set line then
        (case index (split_on (CHR '':'') line) 0 of Inl e \<Rightarrow> Inl e | Inr l0 \<Rightarrow>
           (let label = strip l0;
                st' = st\<lparr>labels := (labels st)(label \<mapsto> format_04b (current_address st))\<rparr>
            in case index (split_on_max1 (CHR '':'') line) 1 of Inl e \<Rightarrow> Inl e | Inr l1 \<Rightarrow>
                 Inr (strip l1, st')))
      else Inr (line, st))"

text \<open>
  The end of the loop body: mnemonic and operands are taken from the line, and a record
  with the counter as address is appended; then the counter goes up by one.
\<close>

definition emit_record :: "string \<Rightarrow> parser_state \<Rightarrow> error + parser_state" where
  "emit_record line st =
     (let parts = split_whitespace_max1 line in
      case index parts 0 of Inl e \<Rightarrow> Inl e | Inr p0 \<Rightarrow>
        (let mnemonic = upper p0;
             operands = (if length parts > 1 then parts ! 1 else []);
             operands = remove_all (CHR ''#'') (remove_all (CHR '' '') operands)
         in Inr (st\<lparr>parsed_lines := parsed_lines st @
                       [\<lparr>address = current_address st, mnemonic = mnemonic,
                         operands = operands\<rparr>],
                     current_address := current_address st + 1\<rparr>)))"

text \<open>One pass of the loop body; \<open>continue\<close> returns the state as it is.\<close>

definition parse_line :: "string \<Rightarrow> parser_state \<Rightarrow> error + parser_state" where
  "parse_line raw st =
     (let line = strip raw in
      if line = [] \<or> startswith line '';'' \<or> startswith line ''.EQU'' then Inr st
      else
        (case index (split_on (CHR '';'') line) 0 of Inl e \<Rightarrow> Inl e | Inr h \<Rightarrow>
        (case take_label (strip h) st of Inl e \<Rightarrow> Inl e | Inr (line, st') \<Rightarrow>
           if line = [] then Inr st' else emit_record line st')))"

fun parse_lines :: "string list \<Rightarrow> parser_state \<Rightarrow> error + parser_state" where
  "parse_lines [] st = Inr st"
| "parse_lines (l # ls) st =
     (case parse_line l st of Inl e \<Rightarrow> Inl e | Inr st' \<Rightarrow> parse_lines ls st')"

definition initial_state :: parser_state where
  "initial_state = \<lparr>parsed_lines = [], labels = Map.empty, current_address = 0\<rparr>"

definition source_lines :: "string \<Rightarrow> string list" where
  "source_lines assembly_code = split_on (CHR 0x0A) (strip assembly_code)"

definition parse_assembly :: "string \<Rightarrow> error + (instruction_data list \<times> label_table)" where
  "parse_assembly assembly_code =
     (case parse_lines (source_lines assembly_code) initial_state of
        Inl e \<Rightarrow> Inl e
      | Inr st \<Rightarrow> Inr (parsed_lines st, labels st))"

subsection \<open>The codec: \<open>convert_binary_to_hex\<close>\<close>

text \<open>
  The built-in \<open>int(s, 2)\<close> on a string: whitespace at both ends is skipped, then come
  an optional sign, an optional prefix \<open>0b\<close> or \<open>0B\<close> (after which one underscore may
  stand), and the digits 0 and 1, where a single underscore may stand between two digits.
  Anything else raises \<open>ValueError\<close>, here \<open>None\<close>. The whitespace \<open>int\<close> skips is
  not that of \<open>strip()\<close>: the four separators 0x1C to 0x1F are not skipped.
\<close>

definition isspace_int :: "char \<Rightarrow> bool" where
  "isspace_int c \<longleftrightarrow>
     c \<in> {CHR 0x09, CHR 0x0A, CHR 0x0B, CHR 0x0C, CHR 0x0D, CHR 0x20, CHR 0x85, CHR 0xA0}"

definition is_bit :: "char \<Rightarrow> bool" where
  "is_bit c \<longleftrightarrow> c = CHR ''0'' \<or> c = CHR ''1''"

fun well_grouped :: "string \<Rightarrow> bool" where
  "well_grouped [] = False"
| "well_grouped [c] = is_bit c"
| "well_grouped (c # d # cs) =
     (is_bit c \<and> (if d = CHR ''_'' then well_grouped cs else well_grouped (d # cs)))"

definition bit_value :: "string \<Rightarrow> int" where
  "bit_value s = foldl (\<lambda>a c. 2 * a + (if c = CHR ''1'' then 1 else 0)) 0 s"

definition int_base2 :: "string \<Rightarrow> int option" where
  "int_base2 s =
     (let s1 = rev (dropWhile isspace_int (rev (dropWhile isspace_int s)));
          signed = (startswith s1 ''+'' \<or> startswith s1 ''-'');
          s2 = (if signed then tl s1 else s1);
          s3 = (if startswith s2 ''0b'' \<or> startswith s2 ''0B''
                then (let t = drop 2 s2 in if startswith t ''_'' then tl t else t)
                else s2)
      in if well_grouped s3
         then Some ((if startswith s1 ''-'' then - 1 else 1) *
                    bit_value (remove_all (CHR ''_'') s3))
         else None)"

text \<open>
  \<open>format(v, '02X')\<close>: upper-case hexadecimal digits, padded with zeros to at least two
  characters, where the sign of a negative number counts as one of them.
\<close>

definition format_02X :: "int \<Rightarrow> string" where
  "format_02X v =
     (if v < 0 then ''-'' @ zfill 1 (digits 16 (nat (- v)))
      else zfill 2 (digits 16 (nat v)))"

definition convert_word :: "string \<Rightarrow> error + string" where
  "convert_word binary_str =
     (if length binary_str \<noteq> 8 then Inl MalformedWord
      else (case int_base2 binary_str of
              None \<Rightarrow> Inl InvalidLiteral
            | Some v \<Rightarrow> Inr (format_02X v)))"

fun convert_binary_to_hex :: "string list \<Rightarrow> error + string list" where
  "convert_binary_to_hex [] = Inr []"
| "convert_binary_to_hex (b # bs) =
     (case convert_word b of
        Inl e \<Rightarrow> Inl e
      | Inr h \<Rightarrow>
          (case convert_binary_to_hex bs of
             Inl e \<Rightarrow> Inl e
           | Inr hs \<Rightarrow> Inr (h # hs)))"

subsection \<open>The main block\<close>

text \<open>
  The main block runs the three steps on the program text and, after the hexadecimal
  words are there, prints a warning when there are more than 16 of them. The model takes
  the text as its argument and returns the two word lists and whether the warning is
  printed.
\<close>

record translation =
  machine_code_binary :: "string list"
  hex_machine_code :: "string list"
  warning :: bool

definition main :: "string \<Rightarrow> error + translation" where
  "main assembly_code =
     (case parse_assembly assembly_code of Inl e \<Rightarrow> Inl e | Inr (parsed_instructions, lbls) \<Rightarrow>
     (case translate_to_machine_code parsed_instructions lbls of Inl e \<Rightarrow> Inl e | Inr bins \<Rightarrow>
     (case convert_binary_to_hex bins of Inl e \<Rightarrow> Inl e | Inr hexes \<Rightarrow>
        Inr \<lparr>machine_code_binary = bins, hex_machine_code = hexes,
             warning = (length hexes > 16)\<rparr>)))"

section \<open>Notions used to state the properties\<close>

subsection \<open>Label definitions of a run of the parser\<close>

text \<open>
  The label a source line defines: the line passes the skip test, its text before the
  first semicolon contains a colon, and the label is the stripped text before the first
  colon. These are the conditions under which the loop body reaches the assignment
  \<open>labels[label] = format(current_address, '04b')\<close>.
\<close>

definition label_of_line :: "string \<Rightarrow> string option" where
  "label_of_line raw =
     (let line = strip raw in
      if line = [] \<or> startswith line '';'' \<or> startswith line ''.EQU'' then None
      else
        (let line = strip (takeWhile (\<lambda>c. c \<noteq> CHR '';'') line) in
         if CHR '':'' \<in> set line then Some (strip (takeWhile (\<lambda>c. c \<noteq> CHR '':'') line))
         else None))"

text \<open>
  The assignments to the label table that the loop makes on the given lines from the given
  state, in order: the label and the value of the counter at that moment.
\<close>

fun label_definitions :: "string list \<Rightarrow> parser_state \<Rightarrow> (string \<times> nat) list" where
  "label_definitions [] st = []"
| "label_definitions (l # ls) st =
     (case parse_line l st of
        Inl e \<Rightarrow> []
      | Inr st' \<Rightarrow>
          (case label_of_line l of
             None \<Rightarrow> label_definitions ls st'
           | Some lab \<Rightarrow> (lab, current_address st) # label_definitions ls st'))"

text \<open>The address of the last definition of a label in such a list.\<close>

definition last_definition :: "(string \<times> nat) list \<Rightarrow> string \<Rightarrow> nat option" where
  "last_definition defs lab = map_of (rev defs) lab"

text \<open>
  The 4-bit binary representation of an address below 16, most significant bit first.
\<close>

definition bin4 :: "nat \<Rightarrow> string" where
  "bin4 a = map (\<lambda>i. if odd (a div 2 ^ i) then CHR ''1'' else CHR ''0'') [3, 2, 1, 0]"

subsection \<open>The immediate as the specification words it\<close>

text \<open>
  The specification strips an optional radix marker \<open>b\<close> at the end of the immediate
  token, and only there.
\<close>

definition spec_strip_trailing_radix :: "string \<Rightarrow> string" where
  "spec_strip_trailing_radix s = (if s \<noteq> [] \<and> last s = CHR ''b'' then butlast s else s)"

subsection \<open>Decoding a hexadecimal word\<close>

text \<open>
  Modelled from the spec: the source has only the direction from binary to hexadecimal;
  the decoding of the round-trip property is not in it. A rendered word is read as a
  number in base 16, most significant digit first, the digits being 0 to 9 and A to F;
  any other character, or the empty string, gives no number.
\<close>

definition hex_digit_value :: "char \<Rightarrow> nat option" where
  "hex_digit_value c =
     (let n = (of_char c :: nat) in
      if 48 \<le> n \<and> n \<le> 57 then Some (n - 48)
      else if 65 \<le> n \<and> n \<le> 70 then Some (n - 55)
      else None)"

fun hex_decode_from :: "int \<Rightarrow> string \<Rightarrow> int option" where
  "hex_decode_from acc [] = Some acc"
| "hex_decode_from acc (c # cs) =
     (case hex_digit_value c of
        None \<Rightarrow> None
      | Some d \<Rightarrow> hex_decode_from (16 * acc + int d) cs)"

definition hex_decode :: "string \<Rightarrow> int option" where
  "hex_decode s = (if s = [] then None else hex_decode_from 0 s)"

subsection \<open>Lower-case letters\<close>


section \<open>Properties of the encoder\<close>

text \<open>The eleven entries of the instruction table, as a case distinction.\<close>

lemma INSTRUCTION_SET_cases:
  "INSTRUCTION_SET m = Some info \<Longrightarrow>
     (m, opcode info, format info) \<in>
       {(''NOP'', ''0000'', ''''), (''HLT'', ''0001'', ''''),
        (''IN'', ''0010'', ''reg_port''), (''OUT'', ''0011'', ''reg_port''),
        (''MOV'', ''0100'', ''reg_reg''), (''LDI'', ''0101'', ''reg_imm2''),
        (''ADD'', ''0110'', ''reg_reg''), (''SUB'', ''0111'', ''reg_reg''),
        (''DEC'', ''1000'', ''reg''), (''JMP'', ''1001'', ''address''),
        (''JZ'', ''1010'', ''address'')}"
  by (auto simp: INSTRUCTION_SET_def split: if_splits)

text \<open>
  C9. A record whose mnemonic has the empty format tag is encoded as its opcode followed by
  \<open>0000\<close>, whatever its operand string and whatever the label table; the mnemonics
  with that tag are NOP and HLT.
\<close>

theorem C9_none_format_ignores_operands:
  assumes "INSTRUCTION_SET (mnemonic r) = Some info" and "format info = []"
  shows "encode_instruction r lbls = Inr (opcode info @ ''0000'')
         \<and> mnemonic r \<in> {''NOP'', ''HLT''}"
  using assms INSTRUCTION_SET_cases [OF assms(1)]
  by (auto simp: encode_instruction_def operand_binary_def)

theorem C9_none_format_ignores_operands_witness:
  "INSTRUCTION_SET ''HLT'' = Some \<lparr>opcode = ''0001'', format = []\<rparr>
   \<and> encode_instruction \<lparr>address = 3, mnemonic = ''HLT'', operands = ''R0,junk''\<rparr> Map.empty
       = Inr ''00010000''"
  using C9_none_format_ignores_operands
    [of "\<lparr>address = 3, mnemonic = ''HLT'', operands = ''R0,junk''\<rparr>"
        "\<lparr>opcode = ''0001'', format = []\<rparr>" Map.empty]
  by (simp add: INSTRUCTION_SET_def)

text \<open>
  C7. The whole pipeline on the single line \<open>LDI R0,#00b\<close> gives one binary word,
  opcode \<open>0101\<close> followed by operand \<open>0000\<close>, rendered as \<open>50\<close>; no warning is
  printed.
\<close>

theorem C7_ldi_end_to_end:
  "main ''LDI R0,#00b'' =
     Inr \<lparr>machine_code_binary = [''0101'' @ ''0000''], hex_machine_code = [''50''],
          warning = False\<rparr>"
  by code_simp

text \<open>
  C2. The encoder has a failure outside the reportable kinds: for the record of the source
  line \<open>IN R0\<close>, whose operand string has no comma, reading \<open>parts[1]\<close> raises
  \<open>IndexError\<close>, with any label table, and the pipeline ends with that exception.
\<close>

theorem C2_missing_comma_raises_IndexError:
  "encode_instruction \<lparr>address = 0, mnemonic = ''IN'', operands = ''R0''\<rparr> lbls = Inl IndexError
   \<and> main ''IN R0'' = Inl IndexError"
  by code_simp

text \<open>
  C3. A program of sixteen NOP lines followed by \<open>L: JMP L\<close> has 17 records and the label
  \<open>L\<close> at address 16, stored as the five characters \<open>10000\<close>; the word of the jump
  is \<open>1001\<close> followed by these five, nine characters, and the codec then ends the
  pipeline with its not-8-bits error.
\<close>

theorem C3_label_at_16_gives_nine_bits:
  "(case parse_assembly
      ''NOP\<newline>NOP\<newline>NOP\<newline>NOP\<newline>NOP\<newline>NOP\<newline>NOP\<newline>NOP\<newline>NOP\<newline>NOP\<newline>NOP\<newline>NOP\<newline>NOP\<newline>NOP\<newline>NOP\<newline>NOP\<newline>L: JMP L''
    of Inl e \<Rightarrow> False
     | Inr (recs, lbls) \<Rightarrow>
         length recs = 17 \<and> lbls ''L'' = Some ''10000'' \<and>
         translate_to_machine_code recs lbls
           = Inr (replicate 16 ''00000000'' @ [''100110000'']))
   \<and> length ''100110000'' = 9
   \<and> main ''NOP\<newline>NOP\<newline>NOP\<newline>NOP\<newline>NOP\<newline>NOP\<newline>NOP\<newline>NOP\<newline>NOP\<newline>NOP\<newline>NOP\<newline>NOP\<newline>NOP\<newline>NOP\<newline>NOP\<newline>NOP\<newline>L: JMP L''
       = Inl MalformedWord"
  by code_simp

text \<open>Reading the first two pieces of a split that has at least two.\<close>

lemma index_Cons2:
  "index (p0 # p1 # ps) 0 = Inr p0" "index (p0 # p1 # ps) (Suc 0) = Inr p1"
  by (simp_all add: index_def)

lemma LDI_entry: "INSTRUCTION_SET ''LDI'' = Some \<lparr>opcode = ''0101'', format = ''reg_imm2''\<rparr>"
  by (simp add: INSTRUCTION_SET_def)

text \<open>
  C4, as stated, fails: the immediate token \<open>b01\<close> is not two binary digits after a marker
  at its end is stripped (it has none there), yet the load-immediate \<open>LDI R0,b01\<close> is
  encoded, as \<open>01010001\<close>, because the code removes the letter b wherever it stands.
\<close>

theorem C4_leading_radix_marker_accepted:
  "REGISTERS ''R0'' = Some ''00''
   \<and> \<not> fullmatch_01_2 (spec_strip_trailing_radix ''b01'')
   \<and> encode_instruction \<lparr>address = 0, mnemonic = ''LDI'', operands = ''R0,b01''\<rparr> Map.empty
       = Inr ''01010001''"
  by code_simp

text \<open>
  C4, amended. For a load-immediate whose operand string has a comma and whose first
  token, stripped, is a register name, encoding fails with the malformed-immediate error
  if and only if the second token, stripped and with every letter b removed, is not
  exactly two characters from 0 and 1; otherwise the word is the opcode, the register code
  and these two characters.
\<close>

theorem C4_immediate_all_b_removed:
  assumes "split_on (CHR '','') ops = p0 # p1 # ps"
    and "REGISTERS (strip p0) = Some rb"
  shows "(encode_instruction \<lparr>address = a, mnemonic = ''LDI'', operands = ops\<rparr> lbls
            = Inl MalformedImmediate
          \<longleftrightarrow> \<not> fullmatch_01_2 (remove_all (CHR ''b'') (strip p1)))
         \<and> (fullmatch_01_2 (remove_all (CHR ''b'') (strip p1)) \<longrightarrow>
              encode_instruction \<lparr>address = a, mnemonic = ''LDI'', operands = ops\<rparr> lbls
                = Inr (''0101'' @ rb @ remove_all (CHR ''b'') (strip p1)))"
  using assms
  by (simp add: encode_instruction_def operand_binary_def LDI_entry index_Cons2 Let_def)

theorem C4_immediate_all_b_removed_witness:
  "split_on (CHR '','') ''R0,3'' = [''R0'', ''3'']
   \<and> REGISTERS (strip ''R0'') = Some ''00''
   \<and> \<not> fullmatch_01_2 (remove_all (CHR ''b'') (strip ''3''))
   \<and> encode_instruction \<lparr>address = 0, mnemonic = ''LDI'', operands = ''R0,3''\<rparr> Map.empty
       = Inl MalformedImmediate"
proof -
  have s: "split_on (CHR '','') ''R0,3'' = ''R0'' # ''3'' # []" by code_simp
  have r: "REGISTERS (strip ''R0'') = Some ''00''" by code_simp
  have f: "\<not> fullmatch_01_2 (remove_all (CHR ''b'') (strip ''3''))" by code_simp
  from C4_immediate_all_b_removed [OF s r, of 0 Map.empty] f s r show ?thesis by simp
qed

section \<open>Properties of the codec\<close>

declare digits.simps [simp del]

lemma digit_char_value_all:
  "\<forall>d \<in> set [0..<16]. hex_digit_value (digit_char d) = Some d"
  by code_simp

lemma digit_char_value: "d < 16 \<Longrightarrow> hex_digit_value (digit_char d) = Some d"
  using digit_char_value_all by simp

lemma digits16_small:
  "n < 256 \<Longrightarrow> zfill 2 (digits 16 n) = [digit_char (n div 16), digit_char (n mod 16)]"
proof (cases "n < 16")
  case True
  then show ?thesis
    by (simp add: digits.simps [of 16 n] zfill_def digit_char_def)
next
  case False
  assume "n < 256"
  then have "n div 16 < 16" by simp
  with False show ?thesis
    by (simp add: digits.simps [of 16 n] digits.simps [of 16 "n div 16"] zfill_def)
qed

text \<open>
  C6. An integer from 0 to 255 is rendered by \<open>format(n, '02X')\<close> as exactly two
  characters, and reading these two characters back as a hexadecimal number gives the
  integer again.
\<close>

theorem C6_hex_round_trip:
  assumes "0 \<le> n" and "n \<le> 255"
  shows "length (format_02X n) = 2 \<and> hex_decode (format_02X n) = Some n"
proof -
  let ?m = "nat n"
  from assms have m: "?m < 256" by simp
  have f: "format_02X n = [digit_char (?m div 16), digit_char (?m mod 16)]"
    using assms m by (simp add: format_02X_def digits16_small)
  have "?m div 16 < 16" using m by simp
  moreover have "?m mod 16 < 16" by simp
  ultimately have "hex_decode (format_02X n) = Some (16 * int (?m div 16) + int (?m mod 16))"
    by (simp add: f hex_decode_def digit_char_value)
  moreover have "16 * int (?m div 16) + int (?m mod 16) = n"
    using assms by (simp add: zdiv_int zmod_int)
  ultimately show ?thesis by (simp add: f)
qed

theorem C6_hex_round_trip_witness:
  "(0::int) \<le> 171 \<and> (171::int) \<le> 255 \<and> format_02X 171 = ''AB''
   \<and> hex_decode ''AB'' = Some 171"
proof -
  have f: "format_02X 171 = ''AB''" by code_simp
  from C6_hex_round_trip [of 171] f show ?thesis by simp
qed

section \<open>Properties of the parser\<close>

text \<open>
  The reads \<open>[0]\<close> and \<open>[1]\<close> of the parser never leave the list: a split has a first
  piece, a split at a colon that is there has a second piece, and a stripped line that is
  not empty has a first word. So each pass of the loop body returns a state, described by
  \<open>parse_line_result\<close>: the table changes exactly when the line defines a label, and
  either nothing else changes or one record with the counter as address is appended and
  the counter goes up by one.
\<close>

lemma split_on_takeWhile: "\<exists>ps. split_on sep s = takeWhile (\<lambda>c. c \<noteq> sep) s # ps"
  by (induction s) auto

lemma index_split_on_0: "index (split_on sep s) 0 = Inr (takeWhile (\<lambda>c. c \<noteq> sep) s)"
  using split_on_takeWhile [of sep s] by (auto simp: index_def)

lemma index_split_on_max1_1:
  "sep \<in> set s \<Longrightarrow> index (split_on_max1 sep s) (Suc 0) = Inr (tl (dropWhile (\<lambda>c. c \<noteq> sep) s))"
  by (simp add: split_on_max1_def index_def)

lemma strip_last_not_space: "strip s \<noteq> [] \<Longrightarrow> \<not> isspace (last (strip s))"
proof -
  assume a: "strip s \<noteq> []"
  let ?t = "dropWhile isspace (rev (dropWhile isspace s))"
  from a have t: "?t \<noteq> []" by (simp add: strip_def)
  then have "\<not> isspace (hd ?t)" by (rule hd_dropWhile)
  moreover have "last (strip s) = hd ?t" using t by (simp add: strip_def last_rev)
  ultimately show ?thesis by simp
qed

lemma strip_has_word: "strip s \<noteq> [] \<Longrightarrow> dropWhile isspace (strip s) \<noteq> []"
proof -
  assume a: "strip s \<noteq> []"
  then have "last (strip s) \<in> set (strip s)" by simp
  with strip_last_not_space [OF a] show ?thesis
    by (auto simp: dropWhile_eq_Nil_conv)
qed



lemma take_label_eq:
  "take_label line st =
     Inr (if CHR '':'' \<in> set line
          then (strip (tl (dropWhile (\<lambda>c. c \<noteq> CHR '':'') line)),
                st\<lparr>labels := (labels st)(strip (takeWhile (\<lambda>c. c \<noteq> CHR '':'') line)
                                  \<mapsto> format_04b (current_address st))\<rparr>)
          else (line, st))"
  by (simp add: take_label_def index_split_on_0 index_split_on_max1_1 Let_def)


lemma split_whitespace_max1_cases:
  assumes "dropWhile isspace line \<noteq> []"
  shows "\<exists>w r. split_whitespace_max1 line = [w] \<or> (split_whitespace_max1 line = [w, r])"
proof -
  let ?w = "takeWhile (\<lambda>c. \<not> isspace c) (dropWhile isspace line)"
  let ?r = "dropWhile isspace (dropWhile (\<lambda>c. \<not> isspace c) (dropWhile isspace line))"
  have e: "split_whitespace_max1 line = (if ?r = [] then [?w] else [?w, ?r])"
    unfolding split_whitespace_max1_def Let_def using assms by (simp only: if_False)
  show ?thesis
  proof (cases "?r = []")
    case True
    then have "split_whitespace_max1 line = [?w]" by (subst e) (rule if_P)
    then show ?thesis by blast
  next
    case False
    then have "split_whitespace_max1 line = [?w, ?r]" by (subst e) (rule if_not_P)
    then show ?thesis by blast
  qed
qed


lemma emit_record_eq:
  assumes "dropWhile isspace line \<noteq> []"
  shows "\<exists>m ops. emit_record line st =
     Inr (st\<lparr>parsed_lines := parsed_lines st @
                [\<lparr>address = current_address st, mnemonic = upper m, operands = ops\<rparr>],
              current_address := Suc (current_address st)\<rparr>)"
proof -
  from split_whitespace_max1_cases [OF assms] obtain w r
    where "split_whitespace_max1 line = [w] \<or> split_whitespace_max1 line = [w, r]" by blast
  then show ?thesis
  proof
    assume e: "split_whitespace_max1 line = [w]"
    have "emit_record line st =
       Inr (st\<lparr>parsed_lines := parsed_lines st @
                [\<lparr>address = current_address st, mnemonic = upper w,
                  operands = remove_all (CHR ''#'') (remove_all (CHR '' '') [])\<rparr>],
              current_address := Suc (current_address st)\<rparr>)"
      by (simp add: emit_record_def e index_def Let_def)
    then show ?thesis by blast
  next
    assume e: "split_whitespace_max1 line = [w, r]"
    have "emit_record line st =
       Inr (st\<lparr>parsed_lines := parsed_lines st @
                [\<lparr>address = current_address st, mnemonic = upper w,
                  operands = remove_all (CHR ''#'') (remove_all (CHR '' '') r)\<rparr>],
              current_address := Suc (current_address st)\<rparr>)"
      by (simp add: emit_record_def e index_def Let_def)
    then show ?thesis by blast
  qed
qed


lemma parse_line_result:
  "\<exists>st'. parse_line raw st = Inr st'
     \<and> labels st' = (case label_of_line raw of
                       None \<Rightarrow> labels st
                     | Some lab \<Rightarrow> (labels st)(lab \<mapsto> format_04b (current_address st)))
     \<and> ((parsed_lines st' = parsed_lines st \<and> current_address st' = current_address st)
        \<or> (\<exists>m ops. parsed_lines st' = parsed_lines st @
                       [\<lparr>address = current_address st, mnemonic = upper m, operands = ops\<rparr>]
                   \<and> current_address st' = Suc (current_address st)))"
proof (cases "strip raw = [] \<or> startswith (strip raw) '';'' \<or> startswith (strip raw) ''.EQU''")
  case True
  then show ?thesis by (auto simp: parse_line_def label_of_line_def)
next
  case False
  let ?h = "strip (takeWhile (\<lambda>c. c \<noteq> CHR '';'') (strip raw))"
  show ?thesis
  proof (cases "CHR '':'' \<in> set ?h")
    case colon: True
    let ?l = "strip (tl (dropWhile (\<lambda>c. c \<noteq> CHR '':'') ?h))"
    let ?st = "st\<lparr>labels := (labels st)(strip (takeWhile (\<lambda>c. c \<noteq> CHR '':'') ?h)
                                  \<mapsto> format_04b (current_address st))\<rparr>"
    show ?thesis
    proof (cases "?l = []")
      case True
      with False colon show ?thesis
        by (simp add: parse_line_def label_of_line_def index_split_on_0 take_label_eq Let_def)
    next
      case ne: False
      from emit_record_eq [OF strip_has_word [OF ne], of ?st]
      obtain m ops where "emit_record ?l ?st =
         Inr (?st\<lparr>parsed_lines := parsed_lines ?st @
                [\<lparr>address = current_address ?st, mnemonic = upper m, operands = ops\<rparr>],
              current_address := Suc (current_address ?st)\<rparr>)" by blast
      with False colon ne show ?thesis
        by (simp add: parse_line_def label_of_line_def index_split_on_0 take_label_eq Let_def) blast
    qed
  next
    case nocolon: False
    show ?thesis
    proof (cases "?h = []")
      case True
      with False nocolon show ?thesis
        by (simp add: parse_line_def label_of_line_def index_split_on_0 take_label_eq Let_def)
    next
      case ne: False
      from emit_record_eq [OF strip_has_word [OF ne], of st]
      obtain m ops where "emit_record ?h st =
         Inr (st\<lparr>parsed_lines := parsed_lines st @
                [\<lparr>address = current_address st, mnemonic = upper m, operands = ops\<rparr>],
              current_address := Suc (current_address st)\<rparr>)" by blast
      with False nocolon ne show ?thesis
        by (simp add: parse_line_def label_of_line_def index_split_on_0 take_label_eq Let_def) blast
    qed
  qed
qed

text \<open>
  What every pass keeps: the counter is the number of records, the addresses are the
  positions, and every mnemonic is the upper-case form of a word.
\<close>

lemma parse_line_invariant:
  assumes "current_address st = length (parsed_lines st)"
    and "map address (parsed_lines st) = [0..<length (parsed_lines st)]"
    and "\<forall>r \<in> set (parsed_lines st). \<exists>m. mnemonic r = upper m"
  shows "\<exists>st'. parse_line raw st = Inr st'
           \<and> current_address st' = length (parsed_lines st')
           \<and> map address (parsed_lines st') = [0..<length (parsed_lines st')]
           \<and> (\<forall>r \<in> set (parsed_lines st'). \<exists>m. mnemonic r = upper m)"
proof -
  from parse_line_result [of raw st] obtain st' where
    p: "parse_line raw st = Inr st'" and
    c: "(parsed_lines st' = parsed_lines st \<and> current_address st' = current_address st)
        \<or> (\<exists>m ops. parsed_lines st' = parsed_lines st @
                       [\<lparr>address = current_address st, mnemonic = upper m, operands = ops\<rparr>]
                   \<and> current_address st' = Suc (current_address st))"
    by blast
  from c show ?thesis
  proof
    assume "parsed_lines st' = parsed_lines st \<and> current_address st' = current_address st"
    with assms p show ?thesis by simp
  next
    assume "\<exists>m ops. parsed_lines st' = parsed_lines st @
                       [\<lparr>address = current_address st, mnemonic = upper m, operands = ops\<rparr>]
                   \<and> current_address st' = Suc (current_address st)"
    then obtain m ops where
      a: "parsed_lines st' = parsed_lines st @
            [\<lparr>address = current_address st, mnemonic = upper m, operands = ops\<rparr>]"
      and b: "current_address st' = Suc (current_address st)" by blast
    have 1: "current_address st' = length (parsed_lines st')" using a b assms(1) by simp
    have 2: "map address (parsed_lines st') = [0..<length (parsed_lines st')]"
      using a assms(1,2) by simp
    have 3: "\<forall>r \<in> set (parsed_lines st'). \<exists>m. mnemonic r = upper m"
      using a assms(3) by auto
    from p 1 2 3 show ?thesis by blast
  qed
qed

lemma parse_lines_invariant:
  assumes "current_address st = length (parsed_lines st)"
    and "map address (parsed_lines st) = [0..<length (parsed_lines st)]"
    and "\<forall>r \<in> set (parsed_lines st). \<exists>m. mnemonic r = upper m"
  shows "\<exists>st'. parse_lines ls st = Inr st'
           \<and> current_address st' = length (parsed_lines st')
           \<and> map address (parsed_lines st') = [0..<length (parsed_lines st')]
           \<and> (\<forall>r \<in> set (parsed_lines st'). \<exists>m. mnemonic r = upper m)"
  using assms
proof (induction ls arbitrary: st)
  case Nil
  then show ?case by simp
next
  case (Cons l ls)
  from parse_line_invariant [OF Cons.prems, of l] obtain st1 where
    p: "parse_line l st = Inr st1" and
    i: "current_address st1 = length (parsed_lines st1)"
       "map address (parsed_lines st1) = [0..<length (parsed_lines st1)]"
       "\<forall>r \<in> set (parsed_lines st1). \<exists>m. mnemonic r = upper m"
    by blast
  from Cons.IH [OF i] p show ?case by simp
qed

text \<open>
  C8. The parser returns on every text: the loop ends in a state, \<open>parse_assembly\<close>
  returns its records and its label table, and no exception is raised. The addresses of
  the records are 0, 1, 2, ... in order, so the i-th record carries address i, and the
  counter at the end is the number of records: it went up once for each record and never
  for a line that gave none.
\<close>

theorem C8_parser_total_addresses_in_order:
  "\<exists>st. parse_lines (source_lines text) initial_state = Inr st
        \<and> parse_assembly text = Inr (parsed_lines st, labels st)
        \<and> map address (parsed_lines st) = [0..<length (parsed_lines st)]
        \<and> current_address st = length (parsed_lines st)"
proof -
  have "\<exists>st. parse_lines (source_lines text) initial_state = Inr st
           \<and> current_address st = length (parsed_lines st)
           \<and> map address (parsed_lines st) = [0..<length (parsed_lines st)]
           \<and> (\<forall>r \<in> set (parsed_lines st). \<exists>m. mnemonic r = upper m)"
    by (rule parse_lines_invariant) (simp_all add: initial_state_def)
  then obtain st where "parse_lines (source_lines text) initial_state = Inr st"
    "current_address st = length (parsed_lines st)"
    "map address (parsed_lines st) = [0..<length (parsed_lines st)]" by blast
  then show ?thesis by (auto simp: parse_assembly_def)
qed

text \<open>
  Stripping a stripped string changes nothing; every label of a run is a stripped string;
  and the table at the end of a run is the table at its start, overwritten by the
  definitions of the run in their order.
\<close>

lemma dropWhile_id: "xs = [] \<or> \<not> P (hd xs) \<Longrightarrow> dropWhile P xs = xs"
  by (cases xs) auto

lemma last_dropWhile_eq: "dropWhile P xs \<noteq> [] \<Longrightarrow> last (dropWhile P xs) = last xs"
proof -
  assume a: "dropWhile P xs \<noteq> []"
  have "last (takeWhile P xs @ dropWhile P xs) = last (dropWhile P xs)"
    using a by (rule last_appendR)
  then show ?thesis by simp
qed

lemma strip_idem: "strip (strip s) = strip s"
proof -
  let ?t = "dropWhile isspace s"
  let ?u = "dropWhile isspace (rev ?t)"
  have s: "strip s = rev ?u" by (simp add: strip_def)
  have 1: "dropWhile isspace (rev ?u) = rev ?u"
  proof (cases "?u = []")
    case True
    show ?thesis by (simp only: True rev.simps dropWhile.simps)
  next
    case False
    have t: "?t \<noteq> []"
    proof
      assume e: "?t = []"
      have "?u = []" by (simp only: e rev.simps dropWhile.simps)
      with False show False by (rule notE)
    qed
    have "hd (rev ?u) = last ?u" using False by (simp add: hd_rev)
    also have "\<dots> = last (rev ?t)" using False by (rule last_dropWhile_eq)
    also have "\<dots> = hd ?t" using t by (simp add: last_rev)
    finally have "\<not> isspace (hd (rev ?u))" using hd_dropWhile [OF t] by simp
    then show ?thesis by (intro dropWhile_id) simp
  qed
  have "strip (strip s) = rev (dropWhile isspace (rev (dropWhile isspace (rev ?u))))"
    by (simp only: s strip_def)
  also have "\<dots> = rev (dropWhile isspace ?u)" by (simp only: 1 rev_rev_ident)
  also have "\<dots> = rev ?u" by (simp only: dropWhile_idem)
  finally show ?thesis by (simp only: s)
qed

lemma label_of_line_stripped: "label_of_line l = Some lab \<Longrightarrow> strip lab = lab"
  by (auto simp: label_of_line_def Let_def strip_idem split: if_splits)

lemma label_definitions_stripped:
  "(lab, a) \<in> set (label_definitions ls st) \<Longrightarrow> strip lab = lab"
proof (induction ls arbitrary: st)
  case Nil
  then show ?case by simp
next
  case (Cons l ls)
  then show ?case
    by (auto split: sum.splits option.splits dest: label_of_line_stripped)
qed

lemma parse_lines_labels:
  "\<exists>st'. parse_lines ls st = Inr st'
     \<and> labels st' = labels st ++
          map_of (rev (map (\<lambda>(l, a). (l, format_04b a)) (label_definitions ls st)))"
proof (induction ls arbitrary: st)
  case Nil
  show ?case by simp
next
  case (Cons l ls)
  from parse_line_result [of l st] obtain st1 where
    p: "parse_line l st = Inr st1" and
    lab: "labels st1 = (case label_of_line l of
                       None \<Rightarrow> labels st
                     | Some lab \<Rightarrow> (labels st)(lab \<mapsto> format_04b (current_address st)))"
    by blast
  from Cons.IH [of st1] obtain st' where
    q: "parse_lines ls st1 = Inr st'" and
    r: "labels st' = labels st1 ++
          map_of (rev (map (\<lambda>(l, a). (l, format_04b a)) (label_definitions ls st1)))"
    by blast
  show ?case
  proof (cases "label_of_line l")
    case None
    with p q r lab show ?thesis by simp
  next
    case (Some x)
    with p q r lab show ?thesis by (simp add: map_add_upd_left)
  qed
qed

section \<open>Label resolution\<close>

text \<open>
  Below 16 the formatted address has four digits and is the 4-bit form; the table the
  parser returns is made of the definitions of the run, later ones overwriting earlier
  ones.
\<close>

lemma format_04b_bin4_all: "\<forall>a \<in> set [0..<16]. format_04b a = bin4 a"
  by code_simp

lemma format_04b_bin4: "a < 16 \<Longrightarrow> format_04b a = bin4 a"
  using format_04b_bin4_all by simp

lemma JMP_entry: "INSTRUCTION_SET ''JMP'' = Some \<lparr>opcode = ''1001'', format = ''address''\<rparr>"
  by (simp add: INSTRUCTION_SET_def)

lemma JZ_entry: "INSTRUCTION_SET ''JZ'' = Some \<lparr>opcode = ''1010'', format = ''address''\<rparr>"
  by (simp add: INSTRUCTION_SET_def)

lemma parse_assembly_labels:
  assumes "parse_assembly text = Inr (recs, lbls)"
  shows "lbls = map_of (rev (map (\<lambda>(l, a). (l, format_04b a))
                   (label_definitions (source_lines text) initial_state)))"
proof -
  from parse_lines_labels [of "source_lines text" initial_state] obtain st where
    p: "parse_lines (source_lines text) initial_state = Inr st" and
    l: "labels st = labels initial_state ++
          map_of (rev (map (\<lambda>(l, a). (l, format_04b a))
                   (label_definitions (source_lines text) initial_state)))"
    by blast
  from assms p have "lbls = labels st" by (simp add: parse_assembly_def)
  with l show ?thesis by (simp add: initial_state_def)
qed

text \<open>
  C1, as stated, fails for a label that is defined twice. In the program of the four lines
  \<open>X:\<close>, \<open>NOP\<close>, \<open>X:\<close>, \<open>JMP X\<close> the label \<open>X\<close> is entered into the table
  at address 0, whose 4-bit form is \<open>0000\<close>, and entered again at address 1; the jump,
  whose operand string is \<open>X\<close>, gets the operand field \<open>0001\<close>.
\<close>

theorem C1_redefined_label_counterexample:
  "(''X'', 0) \<in> set (label_definitions (source_lines ''X:\<newline>NOP\<newline>X:\<newline>JMP X'')
                       initial_state)
   \<and> bin4 0 = ''0000''
   \<and> (case parse_assembly ''X:\<newline>NOP\<newline>X:\<newline>JMP X'' of
         Inl e \<Rightarrow> False
       | Inr (recs, lbls) \<Rightarrow>
           recs = [\<lparr>address = 0, mnemonic = ''NOP'', operands = []\<rparr>,
                   \<lparr>address = 1, mnemonic = ''JMP'', operands = ''X''\<rparr>]
           \<and> encode_instruction \<lparr>address = 1, mnemonic = ''JMP'', operands = ''X''\<rparr> lbls
               = Inr (''1001'' @ ''0001''))"
  by code_simp

text \<open>
  C1, amended. When the last definition of a label in the text is at an address below 16,
  every record with mnemonic JMP or JZ whose operand string is the label (a record of the
  program before or after the defining line, or any other record) is encoded, with the
  table the parser returned, as its opcode followed by the 4-bit binary form of that
  address.
\<close>

theorem C1_last_definition_resolves:
  assumes "parse_assembly text = Inr (recs, lbls)"
    and "last_definition (label_definitions (source_lines text) initial_state) lab = Some a"
    and "a < 16"
    and "mnemonic r = ''JMP'' \<or> mnemonic r = ''JZ''"
    and "operands r = lab"
  shows "encode_instruction r lbls
           = Inr ((if mnemonic r = ''JMP'' then ''1001'' else ''1010'') @ bin4 a)"
proof -
  let ?defs = "label_definitions (source_lines text) initial_state"
  from assms(2) have m: "map_of (rev ?defs) lab = Some a"
    by (simp add: last_definition_def)
  then have "(lab, a) \<in> set ?defs" by (auto dest: map_of_SomeD)
  then have s: "strip lab = lab" by (rule label_definitions_stripped)
  have "lbls lab = map_of (map (\<lambda>(l, a). (l, format_04b a)) (rev ?defs)) lab"
    using parse_assembly_labels [OF assms(1)] by (simp add: rev_map)
  also have "\<dots> = map_option format_04b (map_of (rev ?defs) lab)"
    by (simp add: map_of_map)
  finally have l: "lbls lab = Some (bin4 a)"
    using m assms(3) by (simp add: format_04b_bin4)
  from assms(4) show ?thesis
  proof
    assume j: "mnemonic r = ''JMP''"
    with l s assms(5) show ?thesis
      by (simp add: encode_instruction_def operand_binary_def JMP_entry)
  next
    assume j: "mnemonic r = ''JZ''"
    with l s assms(5) show ?thesis
      by (simp add: encode_instruction_def operand_binary_def JZ_entry)
  qed
qed


theorem C1_last_definition_resolves_witness:
  "(case parse_assembly ''JMP L\<newline>NOP\<newline>L: JZ L'' of
      Inl e \<Rightarrow> False
    | Inr (recs, lbls) \<Rightarrow>
        recs = [\<lparr>address = 0, mnemonic = ''JMP'', operands = ''L''\<rparr>,
                \<lparr>address = 1, mnemonic = ''NOP'', operands = []\<rparr>,
                \<lparr>address = 2, mnemonic = ''JZ'', operands = ''L''\<rparr>]
        \<and> encode_instruction \<lparr>address = 0, mnemonic = ''JMP'', operands = ''L''\<rparr> lbls
            = Inr ''10010010''
        \<and> encode_instruction \<lparr>address = 2, mnemonic = ''JZ'', operands = ''L''\<rparr> lbls
            = Inr ''10100010'')
   \<and> last_definition
         (label_definitions (source_lines ''JMP L\<newline>NOP\<newline>L: JZ L'') initial_state) ''L''
       = Some 2
   \<and> (2::nat) < 16"
proof -
  have c: "case parse_assembly ''JMP L\<newline>NOP\<newline>L: JZ L'' of
      Inl e \<Rightarrow> False
    | Inr (recs, lbls) \<Rightarrow>
        recs = [\<lparr>address = 0, mnemonic = ''JMP'', operands = ''L''\<rparr>,
                \<lparr>address = 1, mnemonic = ''NOP'', operands = []\<rparr>,
                \<lparr>address = 2, mnemonic = ''JZ'', operands = ''L''\<rparr>]"
    by code_simp
  then obtain recs lbls where
    p: "parse_assembly ''JMP L\<newline>NOP\<newline>L: JZ L'' = Inr (recs, lbls)" and
    r: "recs = [\<lparr>address = 0, mnemonic = ''JMP'', operands = ''L''\<rparr>,
                \<lparr>address = 1, mnemonic = ''NOP'', operands = []\<rparr>,
                \<lparr>address = 2, mnemonic = ''JZ'', operands = ''L''\<rparr>]"
    by (auto split: sum.splits)
  have d: "last_definition
         (label_definitions (source_lines ''JMP L\<newline>NOP\<newline>L: JZ L'') initial_state) ''L''
       = Some 2"
    by code_simp
  have b: "bin4 2 = ''0010''" by code_simp
  have j1: "encode_instruction \<lparr>address = 0, mnemonic = ''JMP'', operands = ''L''\<rparr> lbls
            = Inr ''10010010''"
    using C1_last_definition_resolves
      [OF p d, of "\<lparr>address = 0, mnemonic = ''JMP'', operands = ''L''\<rparr>"] b
    by simp
  have j2: "encode_instruction \<lparr>address = 2, mnemonic = ''JZ'', operands = ''L''\<rparr> lbls
            = Inr ''10100010''"
    using C1_last_definition_resolves
      [OF p d, of "\<lparr>address = 2, mnemonic = ''JZ'', operands = ''L''\<rparr>"] b
    by simp
  from p r d j1 j2 show ?thesis by simp
qed

section \<open>Case of names\<close>




lemma split_on_no_sep: "sep \<notin> set x \<Longrightarrow> split_on sep x = [x]"
  by (induction x) auto

















section \<open>Properties of the pipeline\<close>








































end
